theory Spec2Isabelle
  imports Complex_Main "HOL-Library.Word"
begin

section \<open>Values, rows and data frames\<close>

text \<open>
  The program (etl.py) is a batch job over an external data-frame engine. A data frame is
  modelled as its list of column names and its list of rows, a row being the list of its
  cells in column order. The cell types are the ones the two schemas of the source declare
  (StringType, IntegerType, DoubleType), the TimestampType of the derived columns and the
  64-bit type of the generated identifier. IntegerType is the engine's 32-bit signed
  integer. Doubles are only carried, never computed with, and are kept as the rational
  they denote.

  The engine is lazy: a derived column is computed when the frame is written, not when the
  column is added. A cell \<open>Raises e\<close> is a cell whose computation raises \<open>e\<close>
  at that moment; the cells a reader loads are values.
\<close>

datatype error =
    SyntaxError nat
  | NameError string
  | TypeError string
  | AnalysisException string

datatype val =
    Null | StrV string | IntV "32 word" | LongV "64 word" | DblV rat | TsV int
  | Raises error

type_synonym row = "val list"

record dataframe =
  columns :: "string list"
  rows :: "row list"

definition bind_err :: "error + 'a \<Rightarrow> ('a \<Rightarrow> error + 'b) \<Rightarrow> error + 'b" where
  "bind_err m f = (case m of Inl e \<Rightarrow> Inl e | Inr x \<Rightarrow> f x)"

fun collect :: "(error + 'a) list \<Rightarrow> error + 'a list" where
  "collect [] = Inr []"
| "collect (m # ms) =
     (case m of Inl e \<Rightarrow> Inl e
      | Inr x \<Rightarrow> (case collect ms of Inl e \<Rightarrow> Inl e | Inr xs \<Rightarrow> Inr (x # xs)))"

text \<open>
  A cell is read by position. Every frame the engine builds has rows as wide as its column
  list; \<open>well_formed\<close> says so, and outside it the read is Null rather than unspecified.
\<close>

definition cell :: "row \<Rightarrow> nat \<Rightarrow> val" where
  "cell r i = (if i < length r then r ! i else Null)"

definition well_formed :: "dataframe \<Rightarrow> bool" where
  "well_formed df = list_all (\<lambda>r. length r = length (columns df)) (rows df)"

fun index_of :: "string \<Rightarrow> string list \<Rightarrow> nat option" where
  "index_of c [] = None"
| "index_of c (x # xs) = (if x = c then Some 0 else map_option Suc (index_of c xs))"

text \<open>
  Resolving a column name fails in the engine's analysis when no column has the name, or
  when more than one has it.
\<close>

definition col_index :: "string list \<Rightarrow> string \<Rightarrow> error + nat" where
  "col_index cs c =
     (case index_of c cs of
        None \<Rightarrow> Inl (AnalysisException c)
      | Some i \<Rightarrow> if c \<in> set (drop (Suc i) cs) then Inl (AnalysisException c) else Inr i)"

definition column :: "string \<Rightarrow> dataframe \<Rightarrow> val list" where
  "column c df =
     (case index_of c (columns df) of None \<Rightarrow> [] | Some i \<Rightarrow> map (\<lambda>r. cell r i) (rows df))"

section \<open>The engine's relational operations\<close>

text \<open>
  \<open>first_by key seen rs\<close> keeps, in order, the first row of \<open>rs\<close> for each key not
  in \<open>seen\<close>. The engine leaves open which of several rows with one key survives, and
  in which order rows come; the model fixes the first, in input order.
\<close>

fun first_by :: "('a \<Rightarrow> 'k) \<Rightarrow> 'k list \<Rightarrow> 'a list \<Rightarrow> 'a list" where
  "first_by key seen [] = []"
| "first_by key seen (r # rs) =
     (if key r \<in> set seen then first_by key seen rs
      else r # first_by key (key r # seen) rs)"

definition dropDuplicates :: "dataframe \<Rightarrow> dataframe" where
  "dropDuplicates df = df\<lparr>rows := first_by (\<lambda>r. r) [] (rows df)\<rparr>"

definition dropDuplicates_on :: "string list \<Rightarrow> dataframe \<Rightarrow> error + dataframe" where
  "dropDuplicates_on cs df =
     bind_err (collect (map (col_index (columns df)) cs))
       (\<lambda>is. Inr (df\<lparr>rows := first_by (\<lambda>r. map (cell r) is) [] (rows df)\<rparr>))"

text \<open>\<open>df.filter(df.c == v)\<close>: SQL equality, so a Null cell never passes.\<close>

definition filter_eq :: "string \<Rightarrow> val \<Rightarrow> dataframe \<Rightarrow> error + dataframe" where
  "filter_eq c v df =
     bind_err (col_index (columns df) c)
       (\<lambda>i. Inr (df\<lparr>rows := filter (\<lambda>r. cell r i \<noteq> Null \<and> cell r i = v) (rows df)\<rparr>))"

text \<open>
  A select expression is a column name, or \<open>name AS alias\<close> with the keyword in either
  case; \<open>parse_expr\<close> reads the source's strings into (column, output name) pairs.
\<close>

fun split_words :: "string \<Rightarrow> string \<Rightarrow> string list" where
  "split_words acc [] = (if acc = [] then [] else [rev acc])"
| "split_words acc (c # cs) =
     (if c = CHR '' '' then (if acc = [] then [] else [rev acc]) @ split_words [] cs
      else split_words (c # acc) cs)"

definition parse_expr :: "string \<Rightarrow> error + string \<times> string" where
  "parse_expr s =
     (case split_words [] s of
        [c] \<Rightarrow> Inr (c, c)
      | [c, kw, a] \<Rightarrow>
          if kw = ''as'' \<or> kw = ''AS'' \<or> kw = ''As'' \<or> kw = ''aS'' then Inr (c, a)
          else Inl (AnalysisException s)
      | _ \<Rightarrow> Inl (AnalysisException s))"

definition project :: "(string \<times> string) list \<Rightarrow> dataframe \<Rightarrow> error + dataframe" where
  "project es df =
     bind_err (collect (map (\<lambda>e. col_index (columns df) (fst e)) es))
       (\<lambda>is. Inr \<lparr>columns = map snd es, rows = map (\<lambda>r. map (cell r) is) (rows df)\<rparr>)"

definition select :: "string list \<Rightarrow> dataframe \<Rightarrow> error + dataframe" where
  "select cs df = project (map (\<lambda>c. (c, c)) cs) df"

definition selectExpr :: "string list \<Rightarrow> dataframe \<Rightarrow> error + dataframe" where
  "selectExpr ss df = bind_err (collect (map parse_expr ss)) (\<lambda>es. project es df)"

text \<open>
  \<open>df.withColumn(name, f(col(src)))\<close> adds a column whose cells are computed from
  the cells of column \<open>src\<close>; a column of that name is replaced, otherwise the column
  is appended. Only the column name is resolved when the statement runs. The cells are
  computed later, when the frame is written: where \<open>f\<close> raises on a row's cell, or
  that cell's own computation raises, the new cell is one that raises.
\<close>

definition deferred :: "(val \<Rightarrow> error + val) \<Rightarrow> val \<Rightarrow> val" where
  "deferred f x =
     (case x of
        Raises e \<Rightarrow> Raises e
      | _ \<Rightarrow> (case f x of Inl e \<Rightarrow> Raises e | Inr v \<Rightarrow> v))"

definition add_column :: "string \<Rightarrow> val list \<Rightarrow> dataframe \<Rightarrow> dataframe" where
  "add_column c vs df =
     (case index_of c (columns df) of
        None \<Rightarrow>
          \<lparr>columns = columns df @ [c], rows = map (\<lambda>p. fst p @ [snd p]) (zip (rows df) vs)\<rparr>
      | Some i \<Rightarrow> df\<lparr>rows := map (\<lambda>p. (fst p)[i := snd p]) (zip (rows df) vs)\<rparr>)"

definition withColumn ::
  "string \<Rightarrow> (val \<Rightarrow> error + val) \<Rightarrow> string \<Rightarrow> dataframe \<Rightarrow> error + dataframe" where
  "withColumn c f src df =
     bind_err (col_index (columns df) src) (\<lambda>i.
     Inr (add_column c (map (\<lambda>r. deferred f (cell r i)) (rows df)) df))"

text \<open>
  \<open>df.join(other, conditions, "left")\<close> with equality conditions between a column of
  \<open>df\<close> and a column of \<open>other\<close>. A left row is paired with every right row that
  satisfies all conditions (SQL equality: Null equals nothing); a left row with no partner
  is kept once, with Null in the right columns.
\<close>

definition matches :: "(nat \<times> nat) list \<Rightarrow> row \<Rightarrow> row \<Rightarrow> bool" where
  "matches on l r = list_all (\<lambda>c. cell l (fst c) \<noteq> Null \<and> cell l (fst c) = cell r (snd c)) on"

definition join_row :: "(nat \<times> nat) list \<Rightarrow> nat \<Rightarrow> row list \<Rightarrow> row \<Rightarrow> row list" where
  "join_row on width rs l =
     (case filter (matches on l) rs of
        [] \<Rightarrow> [l @ replicate width Null]
      | m # ms \<Rightarrow> map (\<lambda>r. l @ r) (m # ms))"

definition join_left ::
  "(string \<times> string) list \<Rightarrow> dataframe \<Rightarrow> dataframe \<Rightarrow> error + dataframe" where
  "join_left conds df other =
     bind_err (collect (map (\<lambda>c. col_index (columns df) (fst c)) conds)) (\<lambda>is.
     bind_err (collect (map (\<lambda>c. col_index (columns other) (snd c)) conds)) (\<lambda>js.
     Inr \<lparr>columns = columns df @ columns other,
          rows = concat (map (join_row (zip is js) (length (columns other)) (rows other))
                   (rows df))\<rparr>))"

text \<open>
  \<open>monotonically_increasing_id()\<close>: the engine puts the index of the row's partition
  in the upper 31 bits and the row's position within its partition in the lower 33 bits.
  How rows are spread over partitions is the engine's business: \<open>part i\<close> is the
  partition of the row at position \<open>i\<close>.
\<close>

definition monotonically_increasing_id :: "(nat \<Rightarrow> nat) \<Rightarrow> nat \<Rightarrow> val" where
  "monotonically_increasing_id part i =
     LongV (word_of_nat (part i * 2 ^ 33 + length (filter (\<lambda>j. part j = part i) [0..<i])))"

definition with_ids :: "string \<Rightarrow> (nat \<Rightarrow> nat) \<Rightarrow> dataframe \<Rightarrow> dataframe" where
  "with_ids c part df =
     add_column c (map (monotonically_increasing_id part) [0..<length (rows df)]) df"

section \<open>The session: reader, views and written outputs\<close>

datatype dtype = StringType | IntegerType | DoubleType

datatype StructField = StructField string dtype bool

definition field_names :: "StructField list \<Rightarrow> string list" where
  "field_names schema = map (\<lambda>f. case f of StructField n _ _ \<Rightarrow> n) schema"

definition required_fields :: "StructField list \<Rightarrow> string list" where
  "required_fields schema =
     map (\<lambda>f. case f of StructField n _ _ \<Rightarrow> n)
       (filter (\<lambda>f. case f of StructField _ _ nullable \<Rightarrow> \<not> nullable) schema)"

fun field_type :: "StructField list \<Rightarrow> string \<Rightarrow> dtype option" where
  "field_type [] c = None"
| "field_type (StructField n t _ # fs) c = (if n = c then Some t else field_type fs c)"

fun decimal_nat :: "nat \<Rightarrow> string" where
  "decimal_nat n =
     (if n < 10 then [char_of (48 + n)] else decimal_nat (n div 10) @ [char_of (48 + n mod 10)])"

definition decimal :: "int \<Rightarrow> string" where
  "decimal n = (if n < 0 then CHR ''-'' # decimal_nat (nat (- n)) else decimal_nat (nat n))"

text \<open>
  The cell that holds a JSON integer \<open>n\<close> in a column of declared type \<open>t\<close>, if
  there is one: an IntegerType column holds the 32-bit signed integers, a DoubleType column
  the number, a StringType column its text.
\<close>

definition int_cell :: "dtype \<Rightarrow> int \<Rightarrow> val option" where
  "int_cell t n =
     (case t of
        IntegerType \<Rightarrow>
          if - (2 ^ 31) \<le> n \<and> n < 2 ^ 31 then Some (IntV (word_of_int n)) else None
      | DoubleType \<Rightarrow> Some (DblV (of_int n))
      | StringType \<Rightarrow> Some (StrV (decimal n)))"

text \<open>The parse modes of the engine's JSON reader, and what becomes of one value.\<close>

datatype parse_mode = PERMISSIVE | DROPMALFORMED | FAILFAST

datatype loaded = Loaded val | Dropped | Failed

text \<open>
  Modelled from the spec: the engine's JSON reader, which is no part of the source. Section
  4.1 of the specification gives its lenient policy for a value that does not match the
  declared schema: the value is nulled, or its record is dropped. These are the engine's
  permissive and drop-malformed parse modes; in the third mode, fail-fast, the read
  aborts. The source passes no mode, so the engine's default applies.
\<close>

definition load_cell :: "parse_mode \<Rightarrow> val option \<Rightarrow> loaded" where
  "load_cell mode c =
     (case c of
        Some v \<Rightarrow> Loaded v
      | None \<Rightarrow>
          (case mode of
             PERMISSIVE \<Rightarrow> Loaded Null
           | DROPMALFORMED \<Rightarrow> Dropped
           | FAILFAST \<Rightarrow> Failed))"

text \<open>
  Loading the JSON integer \<open>n\<close> found under key \<open>c\<close> into a frame of the given
  schema (None when the schema has no such field, and the key is ignored).
\<close>

definition load_int ::
  "parse_mode \<Rightarrow> StructField list \<Rightarrow> string \<Rightarrow> int \<Rightarrow> loaded option" where
  "load_int mode schema c n =
     map_option (\<lambda>t. load_cell mode (int_cell t n)) (field_type schema c)"

text \<open>
  The session is the engine as the program sees it. \<open>read_json path schema\<close> is the
  engine's reader and \<open>partitioner\<close> its spreading of rows over partitions; both are
  parameters of the model. \<open>views\<close> holds the published temporary views and
  \<open>storage\<close> the written outputs, each with its path and partition columns, in the
  order they were written.
\<close>

record spark =
  read_json :: "string \<Rightarrow> StructField list \<Rightarrow> dataframe"
  partitioner :: "nat \<Rightarrow> nat"
  views :: "(string \<times> dataframe) list"
  storage :: "(string \<times> string list \<times> dataframe) list"

text \<open>
  \<open>df.write.partitionBy(parts).parquet(path)\<close> in the default save mode: the partition
  columns must resolve, and a path that holds an output already is refused. Then the
  frame's cells are computed; the first cell that raises ends the write with its error,
  and nothing is stored.
\<close>

fun raised :: "val \<Rightarrow> error option" where
  "raised (Raises e) = Some e"
| "raised v = None"

definition first_failure :: "dataframe \<Rightarrow> error option" where
  "first_failure df =
     (case List.map_filter raised (concat (rows df)) of [] \<Rightarrow> None | e # _ \<Rightarrow> Some e)"

definition write_parquet ::
  "string \<Rightarrow> string list \<Rightarrow> dataframe \<Rightarrow> spark \<Rightarrow> error + spark" where
  "write_parquet path parts df s =
     bind_err (collect (map (col_index (columns df)) parts)) (\<lambda>_.
       if path \<in> set (map fst (storage s)) then Inl (AnalysisException path)
       else (case first_failure df of
               Some e \<Rightarrow> Inl e
             | None \<Rightarrow> Inr (s\<lparr>storage := storage s @ [(path, parts, df)]\<rparr>)))"

definition createOrReplaceTempView :: "string \<Rightarrow> dataframe \<Rightarrow> spark \<Rightarrow> spark" where
  "createOrReplaceTempView v df s = s\<lparr>views := (v, df) # filter (\<lambda>p. fst p \<noteq> v) (views s)\<rparr>"

text \<open>\<open>spark.sql("SELECT c1, ..., cn FROM v")\<close>, as its column list and its view.\<close>

definition sql_select :: "string list \<Rightarrow> string \<Rightarrow> spark \<Rightarrow> error + dataframe" where
  "sql_select cs v s =
     (case map_of (views s) v of
        None \<Rightarrow> Inl (AnalysisException v)
      | Some df \<Rightarrow> select cs df)"

text \<open>
  A run of one of the two functions ends with the exception it raised, if any, and the
  session as it then is.
\<close>

type_synonym 'a run = "spark \<Rightarrow> (error + 'a) \<times> spark"

definition and_then :: "'a run \<Rightarrow> ('a \<Rightarrow> 'b run) \<Rightarrow> 'b run" where
  "and_then m f s = (case m s of (Inl e, s') \<Rightarrow> (Inl e, s') | (Inr x, s') \<Rightarrow> f x s')"

definition lift :: "error + 'a \<Rightarrow> 'a run" where
  "lift m s = (m, s)"

definition write_table :: "string \<Rightarrow> string list \<Rightarrow> dataframe \<Rightarrow> unit run" where
  "write_table path parts df s =
     (case write_parquet path parts df s of Inl e \<Rightarrow> (Inl e, s) | Inr s' \<Rightarrow> (Inr (), s'))"

definition with_session :: "(spark \<Rightarrow> error + 'a) \<Rightarrow> 'a run" where
  "with_session f s = (f s, s)"

definition publish :: "string \<Rightarrow> dataframe \<Rightarrow> unit run" where
  "publish v df s = (Inr (), createOrReplaceTempView v df s)"

section \<open>Names and statements of the Python module\<close>

text \<open>
  A name is looked up among the function's local variables, then the module's globals, then
  the builtins, and raises NameError when none binds it. The three lists are read off the
  source: the names bound by the imports, the assignment and the four \<open>def\<close>s at module
  level; the parameters and assigned names of \<open>process_log_data\<close>; and Python's
  builtin functions and constants.
\<close>

definition module_names :: "string list" where
  "module_names =
     [''configparser'', ''datetime'', ''os'', ''SparkSession'', ''udf'', ''col'',
      ''year'', ''month'', ''dayofmonth'', ''hour'', ''weekofyear'', ''date_format'',
      ''dayofweek'', ''monotonically_increasing_id'',
      ''StructType'', ''StructField'', ''StringType'', ''IntegerType'', ''DoubleType'',
      ''DateType'', ''TimestampType'',
      ''config'', ''create_spark_session'', ''process_song_data'', ''process_log_data'',
      ''main'']"

definition log_locals :: "string list" where
  "log_locals =
     [''spark'', ''input_data'', ''output_data'', ''log_data'', ''log_schema'', ''df'',
      ''users_cols'', ''users_table'', ''get_timestamp'', ''get_datetime'', ''time_cols'',
      ''time_table'', ''song_df'', ''conditions'', ''songplays_cols'', ''songplays_table'']"

definition builtin_names :: "string list" where
  "builtin_names =
     [''abs'', ''aiter'', ''all'', ''anext'', ''any'', ''ascii'', ''bin'', ''bool'',
      ''breakpoint'', ''bytearray'', ''bytes'', ''callable'', ''chr'', ''classmethod'',
      ''compile'', ''complex'', ''delattr'', ''dict'', ''dir'', ''divmod'', ''enumerate'',
      ''eval'', ''exec'', ''filter'', ''float'', ''format'', ''frozenset'', ''getattr'',
      ''globals'', ''hasattr'', ''hash'', ''help'', ''hex'', ''id'', ''input'', ''int'',
      ''isinstance'', ''issubclass'', ''iter'', ''len'', ''list'', ''locals'', ''map'',
      ''max'', ''memoryview'', ''min'', ''next'', ''object'', ''oct'', ''open'', ''ord'',
      ''pow'', ''print'', ''property'', ''range'', ''repr'', ''reversed'', ''round'',
      ''set'', ''setattr'', ''slice'', ''sorted'', ''staticmethod'', ''str'', ''sum'',
      ''super'', ''tuple'', ''type'', ''vars'', ''zip'', ''__import__'',
      ''True'', ''False'', ''None'', ''Ellipsis'', ''NotImplemented'', ''__debug__'']"

definition bound_name :: "string \<Rightarrow> bool" where
  "bound_name n = (n \<in> set log_locals \<or> n \<in> set module_names \<or> n \<in> set builtin_names)"

text \<open>
  In the model a bound name is a HOL variable. Where the source reads a name, the model
  reads it from the bindings that hold values of the kind used there.
\<close>

definition load_name :: "(string \<times> 'a) list \<Rightarrow> string \<Rightarrow> error + 'a" where
  "load_name env n = (case map_of env n of None \<Rightarrow> Inl (NameError n) | Some v \<Rightarrow> Inr v)"

text \<open>
  A statement must close every bracket it opens. \<open>open_brackets\<close> scans a line, skipping
  string literals, and returns the number of brackets left open (None when a bracket is
  closed that was never opened, or a string literal is not closed).
\<close>

fun open_brackets :: "bool \<Rightarrow> nat \<Rightarrow> string \<Rightarrow> nat option" where
  "open_brackets q d [] = (if q then None else Some d)"
| "open_brackets q d (c # cs) =
     (if q then open_brackets (c \<noteq> CHR 0x22) d cs
      else if c = CHR 0x22 then open_brackets True d cs
      else if c = CHR ''('' \<or> c = CHR ''['' \<or> c = CHR ''{'' then open_brackets False (Suc d) cs
      else if c = CHR '')'' \<or> c = CHR '']'' \<or> c = CHR ''}'' then
        (case d of 0 \<Rightarrow> None | Suc k \<Rightarrow> open_brackets False k cs)
      else open_brackets False d cs)"

definition parse_statement :: "nat \<Rightarrow> string \<Rightarrow> error + unit" where
  "parse_statement n s = (if open_brackets False 0 s = Some 0 then Inr () else Inl (SyntaxError n))"

definition line_132 :: string where
  \<open>line_132 = ''    df = df.withColumn("hour", hour(col("timestamp"))''\<close>

section \<open>The column functions and the two UDFs\<close>

text \<open>
  The functions imported from \<open>pyspark.sql.functions\<close> take a timestamp to one of its
  calendar fields in the session's time zone. The calendar is a parameter of the model: a
  timestamp is its number of microseconds since the epoch, and \<open>year_of cal t\<close> is the
  year the engine reads off it.
\<close>

record calendar =
  year_of :: "int \<Rightarrow> int"
  month_of :: "int \<Rightarrow> int"
  dayofmonth_of :: "int \<Rightarrow> int"
  hour_of :: "int \<Rightarrow> int"
  weekofyear_of :: "int \<Rightarrow> int"
  dayofweek_of :: "int \<Rightarrow> int"

definition ts_field :: "(int \<Rightarrow> int) \<Rightarrow> val \<Rightarrow> error + val" where
  "ts_field f v =
     (case v of
        TsV t \<Rightarrow> Inr (IntV (word_of_int (f t)))
      | Null \<Rightarrow> Inr Null
      | _ \<Rightarrow> Inl (AnalysisException ''timestamp''))"

text \<open>
  The unary column functions that line 6 imports, under their imported names
  (\<open>date_format\<close> and \<open>monotonically_increasing_id\<close> are not unary).
\<close>

definition sql_functions :: "calendar \<Rightarrow> (string \<times> (val \<Rightarrow> error + val)) list" where
  "sql_functions cal =
     [(''year'', ts_field (year_of cal)),
      (''month'', ts_field (month_of cal)),
      (''dayofmonth'', ts_field (dayofmonth_of cal)),
      (''hour'', ts_field (hour_of cal)),
      (''weekofyear'', ts_field (weekofyear_of cal)),
      (''dayofweek'', ts_field (dayofweek_of cal))]"

text \<open>
  \<open>get_timestamp = udf(lambda x: datetime.fromtimestamp(x / 1000), TimestampType())\<close>:
  on an integer number of milliseconds the instant is that many thousand microseconds (the
  float quotient is off by far less than half a microsecond for a 32-bit \<open>x\<close>); on None
  the division raises TypeError.
\<close>

definition get_timestamp :: "val \<Rightarrow> error + val" where
  "get_timestamp x =
     (case x of IntV w \<Rightarrow> Inr (TsV (sint w * 1000)) | _ \<Rightarrow> Inl (TypeError ''/''))"

text \<open>
  \<open>get_datetime = udf(lambda x: to_date(x), TimestampType())\<close>: the body reads the
  name \<open>to_date\<close> each time it is called.
\<close>

definition get_datetime :: "calendar \<Rightarrow> val \<Rightarrow> error + val" where
  "get_datetime cal x =
     bind_err (load_name (sql_functions cal) ''to_date'') (\<lambda>to_date. to_date x)"

section \<open>The song pipeline\<close>

definition song_schema :: "StructField list" where
  "song_schema =
     [StructField ''num_songs'' IntegerType True,
      StructField ''artist_id'' StringType False,
      StructField ''artist_latitude'' DoubleType True,
      StructField ''artist_longitude'' DoubleType True,
      StructField ''artist_location'' StringType True,
      StructField ''artist_name'' StringType True,
      StructField ''song_id'' StringType True,
      StructField ''title'' StringType True,
      StructField ''duration'' DoubleType True,
      StructField ''year'' IntegerType False]"

definition song_cols :: "string list" where
  "song_cols = [''song_id'', ''title'', ''artist_id'', ''year'', ''duration'']"

definition artist_cols :: "string list" where
  "artist_cols =
     [''artist_id'', ''artist_name as name'', ''artist_location as location'',
      ''artist_latitude as latitude'', ''artist_longitude as longitude'']"

definition process_song_data :: "spark \<Rightarrow> string \<Rightarrow> string \<Rightarrow> (error + unit) \<times> spark" where
  "process_song_data spark input_data output_data =
     (let song_data = input_data @ ''song_data/*/*/*/*.json'' in
      and_then (with_session (\<lambda>s. Inr (dropDuplicates (read_json s song_data song_schema))))
        (\<lambda>df.
      and_then (lift (select song_cols df)) (\<lambda>songs_table.
      and_then (write_table (output_data @ ''songs/songs.parquet'') [''year'', ''artist_id'']
                  songs_table) (\<lambda>_.
      and_then (lift (selectExpr artist_cols df)) (\<lambda>artists_table.
      and_then (write_table (output_data @ ''artists/artists.parquet'') [] artists_table) (\<lambda>_.
      publish ''song_data_df'' df))))) spark)"

section \<open>The log pipeline\<close>

definition log_schema :: "StructField list" where
  "log_schema =
     [StructField ''artist'' StringType True,
      StructField ''auth'' StringType True,
      StructField ''firstName'' StringType True,
      StructField ''gender'' StringType True,
      StructField ''itemInSession'' IntegerType True,
      StructField ''lastName'' StringType True,
      StructField ''length'' DoubleType True,
      StructField ''level'' StringType True,
      StructField ''location'' StringType True,
      StructField ''method'' StringType True,
      StructField ''page'' StringType True,
      StructField ''registration'' StringType True,
      StructField ''sessionId'' StringType True,
      StructField ''song'' StringType True,
      StructField ''status'' StringType True,
      StructField ''ts'' IntegerType False,
      StructField ''userAgent'' StringType True,
      StructField ''userId'' StringType True]"

definition users_cols :: "string list" where
  "users_cols =
     [''userId AS user_id'', ''firstName AS first_name'', ''lastName AS last_name'',
      ''gender'', ''level'']"

text \<open>
  Line 118, \<open>users_table = df.selectExpr(user_cols).dropDuplicates()\<close>. The only
  column list bound at this point is \<open>users_cols\<close>; the statement reads
  \<open>user_cols\<close>.
\<close>

definition users_table :: "dataframe \<Rightarrow> error + dataframe" where
  "users_table df =
     bind_err (load_name [(''users_cols'', users_cols)] ''user_cols'') (\<lambda>user_cols.
     bind_err (selectExpr user_cols df) (\<lambda>t.
     Inr (dropDuplicates t)))"

text \<open>
  Lines 124 to 137, statement by statement, with the bracket of line 132 closed (as
  written, the line keeps the module from compiling, which \<open>etl\<close> below states; a
  function body only ever runs once it has been compiled). Each statement reads its column
  function under the name it uses, when the statement runs; the two UDFs are only called
  when the frame is written.
\<close>

definition add_time_columns :: "calendar \<Rightarrow> dataframe \<Rightarrow> error + dataframe" where
  "add_time_columns cal df =
     bind_err (withColumn ''timestamp'' get_timestamp ''ts'' df) (\<lambda>df.
     bind_err (withColumn ''start_time'' (get_datetime cal) ''ts'' df) (\<lambda>df.
     bind_err (load_name (sql_functions cal) ''hour'') (\<lambda>hour.
     bind_err (withColumn ''hour'' hour ''timestamp'' df) (\<lambda>df.
     bind_err (load_name (sql_functions cal) ''day'') (\<lambda>day.
     bind_err (withColumn ''day'' day ''timestamp'' df) (\<lambda>df.
     bind_err (load_name (sql_functions cal) ''weekofyear'') (\<lambda>weekofyear.
     bind_err (withColumn ''week'' weekofyear ''timestamp'' df) (\<lambda>df.
     bind_err (load_name (sql_functions cal) ''month'') (\<lambda>month.
     bind_err (withColumn ''month'' month ''timestamp'' df) (\<lambda>df.
     bind_err (load_name (sql_functions cal) ''year'') (\<lambda>year.
     bind_err (withColumn ''year'' year ''timestamp'' df) (\<lambda>df.
     bind_err (load_name (sql_functions cal) ''dayofweek'') (\<lambda>dayofweek.
     withColumn ''weekday'' dayofweek ''timestamp'' df)))))))))))))"

definition time_cols :: "string list" where
  "time_cols = [''start_time'', ''hour'', ''day'', ''week'', ''month'', ''year'', ''weekday'']"

text \<open>Line 141, \<open>time_table = df.select(time_cols).dropDuplicates(["start_time"])\<close>.\<close>

definition time_table :: "dataframe \<Rightarrow> error + dataframe" where
  "time_table df = bind_err (select time_cols df) (dropDuplicates_on [''start_time''])"

text \<open>
  Lines 150 to 154. The two conditions pair a column of the log frame with a column of the
  song frame: \<open>df.song == song_df.title\<close> and \<open>df.artist == song_df.artist_name\<close>.
\<close>

definition conditions :: "(string \<times> string) list" where
  "conditions = [(''song'', ''title''), (''artist'', ''artist_name'')]"

definition songplays_cols :: "string list" where
  "songplays_cols =
     [''start_time'', ''userId as user_id'', ''level'', ''song_id'', ''artist_id'',
      ''sessionId as session_id'', ''location'', ''userAgent as user_agent'', ''year'',
      ''month'']"

definition songplays_table :: "(nat \<Rightarrow> nat) \<Rightarrow> dataframe \<Rightarrow> dataframe \<Rightarrow> error + dataframe" where
  "songplays_table part df song_df =
     bind_err (join_left conditions df song_df) (\<lambda>joined.
     bind_err (selectExpr songplays_cols joined) (\<lambda>t.
     Inr (with_ids ''songplay_id'' part t)))"

definition process_log_data ::
  "calendar \<Rightarrow> spark \<Rightarrow> string \<Rightarrow> string \<Rightarrow> (error + unit) \<times> spark" where
  "process_log_data cal spark input_data output_data =
     (let log_data = input_data @ ''log_data/*/*/*.json'' in
      and_then (with_session (\<lambda>s. Inr (dropDuplicates (read_json s log_data log_schema))))
        (\<lambda>df.
      and_then (lift (filter_eq ''page'' (StrV ''NextSong'') df)) (\<lambda>df.
      and_then (lift (users_table df)) (\<lambda>users.
      and_then (write_table (output_data @ ''users/users.parquet'') [] users) (\<lambda>_.
      and_then (lift (add_time_columns cal df)) (\<lambda>df.
      and_then (lift (time_table df)) (\<lambda>times.
      and_then (write_table (output_data @ ''time/time.parquet'') [''year'', ''month''] times)
        (\<lambda>_.
      and_then (with_session
                  (sql_select [''song_id'', ''title'', ''artist_id'', ''artist_name'']
                     ''song_data_df'')) (\<lambda>song_df.
      and_then (with_session (\<lambda>s. songplays_table (partitioner s) df song_df)) (\<lambda>songplays.
      write_table (output_data @ ''songplays/songplays.parquet'') [''year'', ''month'']
        songplays))))))))) spark)"

text \<open>
  \<open>main\<close> runs the two pipelines in turn on one session: the two function bodies as
  they run once the bracket of line 132 is closed. \<open>etl\<close> is the module as written:
  it is compiled before any of it runs, compiling needs every statement to parse, and line
  132 does not.
\<close>

definition main :: "calendar \<Rightarrow> string \<Rightarrow> string \<Rightarrow> unit run" where
  "main cal input_data output_data =
     and_then (\<lambda>s. process_song_data s input_data output_data)
       (\<lambda>_ s. process_log_data cal s input_data output_data)"

definition etl :: "calendar \<Rightarrow> string \<Rightarrow> string \<Rightarrow> unit run" where
  "etl cal input_data output_data =
     and_then (lift (parse_statement 132 line_132)) (\<lambda>_. main cal input_data output_data)"

section \<open>Concrete inputs\<close>

text \<open>
  A 32-bit count of milliseconds reaches at most 2147483647 ms, less than 25 days, so every
  instant a non-negative \<open>ts\<close> of the declared type can denote lies in January 1970.
  For those instants the calendar of the UTC time zone is: 1 January 1970 was a Thursday
  and lies in ISO week 1; \<open>dayofweek\<close> counts from Sunday = 1.
\<close>

definition utc_january_1970 :: calendar where
  "utc_january_1970 =
     \<lparr>year_of = (\<lambda>t. 1970),
      month_of = (\<lambda>t. 1),
      dayofmonth_of = (\<lambda>t. 1 + t div 86400000000),
      hour_of = (\<lambda>t. (t div 3600000000) mod 24),
      weekofyear_of = (\<lambda>t. (3 + t div 86400000000) div 7 + 1),
      dayofweek_of = (\<lambda>t. (4 + t div 86400000000) mod 7 + 1)\<rparr>"

text \<open>
  The columns of the log frame where the join of line 154 stands: the log schema's,
  followed by the eight that lines 125 to 137 name.
\<close>

definition timed_columns :: "string list" where
  "timed_columns =
     field_names log_schema @
     [''timestamp'', ''start_time'', ''hour'', ''day'', ''week'', ''month'', ''year'',
      ''weekday'']"

definition song_view_columns :: "string list" where
  "song_view_columns = [''song_id'', ''title'', ''artist_id'', ''artist_name'']"

text \<open>
  A song record and a log record of the shape the specification's scenario uses, as rows of
  the two schemas; keys the records do not carry are Null.
\<close>

definition song_row :: "string \<Rightarrow> string \<Rightarrow> string \<Rightarrow> string \<Rightarrow> row" where
  "song_row song_id title artist_id artist_name =
     [Null, StrV artist_id, Null, Null, Null, StrV artist_name, StrV song_id, StrV title,
      DblV 200, IntV 2000]"

definition log_row :: "string \<Rightarrow> string \<Rightarrow> string \<Rightarrow> val \<Rightarrow> row" where
  "log_row song artist level ts =
     [StrV artist, Null, Null, Null, Null, Null, Null, StrV level, StrV ''X'', Null,
      StrV ''NextSong'', Null, StrV ''1'', StrV song, Null, ts, StrV ''Y'', StrV ''1'']"

definition song_frame :: "row list \<Rightarrow> dataframe" where
  "song_frame rs = \<lparr>columns = field_names song_schema, rows = rs\<rparr>"

definition log_frame :: "row list \<Rightarrow> dataframe" where
  "log_frame rs = \<lparr>columns = field_names log_schema, rows = rs\<rparr>"

text \<open>
  A fresh session over an input root \<open>in/\<close> that holds the given song and log
  frames, with nothing published or written yet and all rows in partition 0.
\<close>

definition single_partition :: "nat \<Rightarrow> nat" where
  "single_partition i = 0"

definition session_of :: "dataframe \<Rightarrow> dataframe \<Rightarrow> spark" where
  "session_of songs logs =
     \<lparr>read_json = (\<lambda>path schema. if path = ''in/song_data/*/*/*/*.json'' then songs else logs),
      partitioner = single_partition,
      views = [],
      storage = []\<rparr>"

text \<open>
  The scenario of the specification: one song record and one log record. The log record's
  \<open>ts\<close> is 1000000000000, which the declared IntegerType cannot hold; the cell is the
  one the permissive reader loads.
\<close>

definition scenario :: spark where
  "scenario =
     session_of (song_frame [song_row ''S1'' ''Test Song'' ''A1'' ''Test Artist''])
       (log_frame [log_row ''Test Song'' ''Test Artist'' ''free'' Null])"

text \<open>One user with two plays, the first at level free and the second at level paid.\<close>

definition two_levels :: spark where
  "two_levels =
     session_of (song_frame [song_row ''S1'' ''Test Song'' ''A1'' ''Test Artist''])
       (log_frame [log_row ''Test Song'' ''Test Artist'' ''free'' (IntV 1000),
                   log_row ''Test Song'' ''Test Artist'' ''paid'' (IntV 2000)])"

text \<open>A play of the song that the one song record names.\<close>

definition matched_play :: spark where
  "matched_play =
     session_of (song_frame [song_row ''S1'' ''Test Song'' ''A1'' ''Test Artist''])
       (log_frame [log_row ''Test Song'' ''Test Artist'' ''free'' (IntV 1000)])"

text \<open>A play of a song that no song record names.\<close>

definition unmatched_play :: spark where
  "unmatched_play =
     session_of (song_frame [song_row ''S1'' ''Test Song'' ''A1'' ''Test Artist''])
       (log_frame [log_row ''Other Song'' ''Test Artist'' ''free'' (IntV 1000)])"

section \<open>The songplays frame, row by row\<close>

text \<open>
  What the statement of lines 150 to 154 is expected to build, said per log row:
  \<open>field df c r\<close> is the cell of row \<open>r\<close> in the column named \<open>c\<close>;
  \<open>song_matches\<close> are the song records whose title and artist name equal the row's
  song and artist; \<open>plays_of\<close> are the songplays rows of one log row, without the
  identifier: one for each matching song record, or one with Null identifiers when no
  song record matches.
\<close>

definition field :: "dataframe \<Rightarrow> string \<Rightarrow> row \<Rightarrow> val" where
  "field df c r = (case index_of c (columns df) of None \<Rightarrow> Null | Some i \<Rightarrow> cell r i)"

definition song_matches :: "dataframe \<Rightarrow> dataframe \<Rightarrow> row \<Rightarrow> row list" where
  "song_matches df song_df l =
     filter (\<lambda>r. field df ''song'' l \<noteq> Null \<and> field df ''song'' l = field song_df ''title'' r
               \<and> field df ''artist'' l \<noteq> Null
               \<and> field df ''artist'' l = field song_df ''artist_name'' r)
       (rows song_df)"

definition songplay :: "dataframe \<Rightarrow> row \<Rightarrow> val \<Rightarrow> val \<Rightarrow> row" where
  "songplay df l song_id artist_id =
     [field df ''start_time'' l, field df ''userId'' l, field df ''level'' l, song_id,
      artist_id, field df ''sessionId'' l, field df ''location'' l, field df ''userAgent'' l,
      field df ''year'' l, field df ''month'' l]"

definition plays_of :: "dataframe \<Rightarrow> dataframe \<Rightarrow> row \<Rightarrow> row list" where
  "plays_of df song_df l =
     (case song_matches df song_df l of
        [] \<Rightarrow> [songplay df l Null Null]
      | m # ms \<Rightarrow>
          map (\<lambda>r. songplay df l (field song_df ''song_id'' r) (field song_df ''artist_id'' r))
            (m # ms))"

definition songplays_columns :: "string list" where
  "songplays_columns =
     [''start_time'', ''user_id'', ''level'', ''song_id'', ''artist_id'', ''session_id'',
      ''location'', ''user_agent'', ''year'', ''month'']"

text \<open>
  A log row as it would stand at lines 141 and 154, had lines 124 to 137 run with
  \<open>start_time\<close> the timestamp itself: the row of the log schema followed by the eight
  derived cells.
\<close>

definition timed_row :: "string \<Rightarrow> string \<Rightarrow> int \<Rightarrow> row" where
  "timed_row song artist ms =
     log_row song artist ''free'' (IntV (word_of_int ms)) @
     [TsV (ms * 1000), TsV (ms * 1000),
      IntV (word_of_int (hour_of utc_january_1970 (ms * 1000))),
      IntV (word_of_int (dayofmonth_of utc_january_1970 (ms * 1000))),
      IntV (word_of_int (weekofyear_of utc_january_1970 (ms * 1000))),
      IntV (word_of_int (month_of utc_january_1970 (ms * 1000))),
      IntV (word_of_int (year_of utc_january_1970 (ms * 1000))),
      IntV (word_of_int (dayofweek_of utc_january_1970 (ms * 1000)))]"

definition timed_frame :: "row list \<Rightarrow> dataframe" where
  "timed_frame rs = \<lparr>columns = timed_columns, rows = rs\<rparr>"

section \<open>Deduplication\<close>

lemma first_by_distinct_keys:
  "distinct (map key rs) \<Longrightarrow> set (map key rs) \<inter> set seen = {} \<Longrightarrow> first_by key seen rs = rs"
proof (induction rs arbitrary: seen)
  case Nil
  show ?case by simp
next
  case (Cons r rs)
  from Cons.prems have fresh: "key r \<notin> set seen" by auto
  from Cons.prems have "distinct (map key rs)" by simp
  moreover from Cons.prems have "set (map key rs) \<inter> set (key r # seen) = {}" by auto
  ultimately have "first_by key (key r # seen) rs = rs" by (rule Cons.IH)
  with fresh show ?case by simp
qed

lemma first_by_keys: "set (map key (first_by key seen rs)) = set (map key rs) - set seen"
proof (induction rs arbitrary: seen)
  case Nil
  show ?case by simp
next
  case (Cons r rs)
  show ?case
  proof (cases "key r \<in> set seen")
    case True
    with Cons.IH [of seen] show ?thesis by auto
  next
    case False
    with Cons.IH [of "key r # seen"] show ?thesis by auto
  qed
qed

lemma first_by_keys_fresh: "set (map key (first_by key seen rs)) \<inter> set seen = {}"
  unfolding first_by_keys by blast

lemma first_by_distinct: "distinct (map key (first_by key seen rs))"
proof (induction rs arbitrary: seen)
  case Nil
  show ?case by simp
next
  case (Cons r rs)
  have "key r \<notin> set (map key (first_by key (key r # seen) rs))"
    using first_by_keys_fresh [of key "key r # seen" rs] by auto
  with Cons.IH [of "key r # seen"] Cons.IH [of seen] show ?case by simp
qed

lemma first_by_subset: "set (first_by key seen rs) \<subseteq> set rs"
  by (induction rs arbitrary: seen) auto

text \<open>
  C10. Exact-duplicate-row deduplication is idempotent: a frame without exact-duplicate
  rows is left as it is by \<open>dropDuplicates\<close>, and so deduplicating a second time
  changes nothing.
\<close>

theorem dropDuplicates_idempotent:
  "(distinct (rows df) \<longrightarrow> dropDuplicates df = df)
   \<and> distinct (rows (dropDuplicates df))
   \<and> dropDuplicates (dropDuplicates df) = dropDuplicates df"
proof -
  have keep: "first_by (\<lambda>r. r) [] rs = rs" if "distinct rs" for rs :: "row list"
    using first_by_distinct_keys [of "\<lambda>r. r" rs "[]"] that by simp
  have d: "distinct (first_by (\<lambda>r. r) [] (rows df))"
    using first_by_distinct [of "\<lambda>r. r" "[]" "rows df"] by simp
  show ?thesis
    using keep [OF d] keep [of "rows df"] d by (simp add: dropDuplicates_def)
qed

theorem dropDuplicates_idempotent_witness:
  "distinct (rows \<lparr>columns = [''a''], rows = [[StrV ''x''], [Null]]\<rparr>)
   \<and> dropDuplicates \<lparr>columns = [''a''], rows = [[StrV ''x''], [Null]]\<rparr>
       = \<lparr>columns = [''a''], rows = [[StrV ''x''], [Null]]\<rparr>
   \<and> rows (dropDuplicates \<lparr>columns = [''a''], rows = [[Null], [StrV ''x''], [Null]]\<rparr>)
       = [[Null], [StrV ''x'']]"
  using dropDuplicates_idempotent [of "\<lparr>columns = [''a''], rows = [[StrV ''x''], [Null]]\<rparr>"]
  by (simp add: dropDuplicates_def)

section \<open>Running the two pipelines\<close>

lemma and_then_lift:
  "and_then (lift m) f s = (case m of Inl e \<Rightarrow> (Inl e, s) | Inr x \<Rightarrow> f x s)"
  by (simp add: and_then_def lift_def split: sum.splits)

lemma and_then_with_session:
  "and_then (with_session g) f s = (case g s of Inl e \<Rightarrow> (Inl e, s) | Inr x \<Rightarrow> f x s)"
  by (simp add: and_then_def with_session_def split: sum.splits)

lemma filter_eq_error: "filter_eq c v df = Inl e \<Longrightarrow> e = AnalysisException c"
  by (auto simp add: filter_eq_def bind_err_def col_index_def
      split: sum.splits option.splits if_splits)

lemma users_table_raises: "users_table df = Inl (NameError ''user_cols'')"
  by (simp add: users_table_def load_name_def bind_err_def)

lemma line_132_open: "open_brackets False 0 line_132 = Some 1"
  by (simp add: line_132_def)

lemma line_132_rejected: "parse_statement 132 line_132 = Inl (SyntaxError 132)"
  by (simp add: parse_statement_def line_132_open)

lemma get_datetime_raises: "get_datetime cal x = Inl (NameError ''to_date'')"
  by (simp add: get_datetime_def load_name_def sql_functions_def bind_err_def)

lemma day_unbound: "load_name (sql_functions cal) ''day'' = Inl (NameError ''day'')"
  by (simp add: load_name_def sql_functions_def)

lemma unbound_names:
  "\<not> bound_name ''user_cols'' \<and> \<not> bound_name ''to_date'' \<and> \<not> bound_name ''day''"
  by (simp add: bound_name_def log_locals_def module_names_def builtin_names_def)

lemma users_cols_bound: "bound_name ''users_cols''"
  by (simp add: bound_name_def log_locals_def)

lemma process_log_data_raises:
  "process_log_data cal spark inp outp = (Inl (NameError ''user_cols''), spark)
   \<or> process_log_data cal spark inp outp = (Inl (AnalysisException ''page''), spark)"
proof (cases "filter_eq ''page'' (StrV ''NextSong'')
                (dropDuplicates (read_json spark (inp @ ''log_data/*/*/*.json'') log_schema))")
  case (Inl e)
  with filter_eq_error [OF Inl] show ?thesis
    by (simp add: process_log_data_def and_then_lift and_then_with_session)
next
  case (Inr df)
  then show ?thesis
    by (simp add: process_log_data_def and_then_lift and_then_with_session users_table_raises)
qed

lemma hour_bound:
  "load_name (sql_functions cal) ''hour'' = Inr (ts_field (hour_of cal))"
  by (simp add: load_name_def sql_functions_def)

lemma add_time_columns_raises: "\<exists>e. add_time_columns cal df = Inl e"
proof (cases "withColumn ''timestamp'' get_timestamp ''ts'' df")
  case (Inl e)
  then show ?thesis by (simp add: add_time_columns_def bind_err_def)
next
  case (Inr df1)
  note first = this
  show ?thesis
  proof (cases "withColumn ''start_time'' (get_datetime cal) ''ts'' df1")
    case (Inl e)
    with first show ?thesis by (simp add: add_time_columns_def bind_err_def)
  next
    case (Inr df2)
    note second = this
    show ?thesis
    proof (cases "withColumn ''hour'' (ts_field (hour_of cal)) ''timestamp'' df2")
      case (Inl e)
      with first second show ?thesis
        by (simp add: add_time_columns_def bind_err_def hour_bound)
    next
      case (Inr df3)
      with first second show ?thesis
        by (simp add: add_time_columns_def bind_err_def hour_bound day_unbound)
    qed
  qed
qed

lemma etl_rejected: "etl cal inp outp spark = (Inl (SyntaxError 132), spark)"
  by (simp add: etl_def and_then_lift line_132_rejected)

lemma log_columns:
  "field_names log_schema =
     [''artist'', ''auth'', ''firstName'', ''gender'', ''itemInSession'', ''lastName'',
      ''length'', ''level'', ''location'', ''method'', ''page'', ''registration'',
      ''sessionId'', ''song'', ''status'', ''ts'', ''userAgent'', ''userId'']"
  by (simp add: field_names_def log_schema_def)

lemma song_columns:
  "field_names song_schema =
     [''num_songs'', ''artist_id'', ''artist_latitude'', ''artist_longitude'',
      ''artist_location'', ''artist_name'', ''song_id'', ''title'', ''duration'', ''year'']"
  by (simp add: field_names_def song_schema_def)

text \<open>
  On a frame of the log schema, whatever its rows, lines 124 to 132 add their columns
  without computing a cell, and line 133 raises NameError for \<open>day\<close>.
\<close>

lemma add_time_columns_day:
  "add_time_columns cal (log_frame rs) = Inl (NameError ''day'')"
  by (simp add: add_time_columns_def withColumn_def bind_err_def col_index_def
      add_column_def log_frame_def log_columns hour_bound day_unbound)

text \<open>
  What the source settles about required fields: the song schema declares \<open>artist_id\<close>
  and \<open>year\<close> non-nullable, the log schema \<open>ts\<close>. What the reader does with a
  record that lacks one of them is the engine's business.
\<close>

lemma declared_required:
  "required_fields song_schema = [''artist_id'', ''year'']"
  "required_fields log_schema = [''ts'']"
  by (simp_all add: required_fields_def song_schema_def log_schema_def)

lemma process_log_data_name_error:
  assumes "columns (read_json spark (inp @ ''log_data/*/*/*.json'') log_schema)
             = field_names log_schema"
  shows "process_log_data cal spark inp outp = (Inl (NameError ''user_cols''), spark)"
proof -
  have "\<exists>df. filter_eq ''page'' (StrV ''NextSong'')
          (dropDuplicates (read_json spark (inp @ ''log_data/*/*/*.json'') log_schema)) = Inr df"
    using assms
    by (simp add: filter_eq_def bind_err_def col_index_def dropDuplicates_def log_columns)
  then show ?thesis
    by (auto simp add: process_log_data_def and_then_lift and_then_with_session
        users_table_raises)
qed

text \<open>
  The song pipeline on a fresh session that holds the scenario's song record: it writes
  the songs and the artists table and publishes the view.
\<close>

lemma song_pipeline_runs:
  "process_song_data
     (session_of (song_frame [song_row ''S1'' ''Test Song'' ''A1'' ''Test Artist'']) logs)
     ''in/'' ''out/'' =
   (Inr (),
    (session_of (song_frame [song_row ''S1'' ''Test Song'' ''A1'' ''Test Artist'']) logs)
      \<lparr>views :=
         [(''song_data_df'', song_frame [song_row ''S1'' ''Test Song'' ''A1'' ''Test Artist''])],
       storage :=
         [(''out/songs/songs.parquet'', [''year'', ''artist_id''],
           \<lparr>columns = song_cols,
            rows = [[StrV ''S1'', StrV ''Test Song'', StrV ''A1'', IntV 2000, DblV 200]]\<rparr>),
          (''out/artists/artists.parquet'', [],
           \<lparr>columns = [''artist_id'', ''name'', ''location'', ''latitude'', ''longitude''],
            rows = [[StrV ''A1'', StrV ''Test Artist'', Null, Null, Null]]\<rparr>)]\<rparr>)"
  by (simp add: process_song_data_def session_of_def lift_def with_session_def
      and_then_def write_table_def write_parquet_def publish_def
      createOrReplaceTempView_def select_def selectExpr_def project_def parse_expr_def
      bind_err_def col_index_def dropDuplicates_def song_frame_def song_columns song_row_def
      song_cols_def artist_cols_def cell_def first_failure_def List.map_filter_simps)

lemma main_raises:
  assumes "columns logs = field_names log_schema"
  shows "fst (main cal ''in/'' ''out/''
            (session_of (song_frame [song_row ''S1'' ''Test Song'' ''A1'' ''Test Artist''])
               logs)) = Inl (NameError ''user_cols'')
         \<and> map fst (storage (snd (main cal ''in/'' ''out/''
            (session_of (song_frame [song_row ''S1'' ''Test Song'' ''A1'' ''Test Artist''])
               logs)))) = [''out/songs/songs.parquet'', ''out/artists/artists.parquet'']"
proof -
  let ?s = "session_of (song_frame [song_row ''S1'' ''Test Song'' ''A1'' ''Test Artist'']) logs"
  let ?s' = "snd (process_song_data ?s ''in/'' ''out/'')"
  have reader: "columns (read_json ?s' (''in/'' @ ''log_data/*/*/*.json'') log_schema)
                  = field_names log_schema"
    using assms unfolding song_pipeline_runs by (simp add: session_of_def)
  have "main cal ''in/'' ''out/'' ?s = process_log_data cal ?s' ''in/'' ''out/''"
    by (simp add: main_def and_then_def song_pipeline_runs)
  also have "\<dots> = (Inl (NameError ''user_cols''), ?s')"
    by (rule process_log_data_name_error [OF reader])
  finally show ?thesis
    by (simp add: song_pipeline_runs)
qed

section \<open>The defects of the log pipeline\<close>

text \<open>
  C3. For every session and every input, \<open>process_log_data\<close> raises before it writes
  anything: the run ends in an exception and leaves the session, its written outputs
  included, as it found it. The statement of line 118 reads the name \<open>user_cols\<close>,
  which nothing binds (the list is bound as \<open>users_cols\<close>); the UDF that derives
  \<open>start_time\<close> calls \<open>to_date\<close>, which nothing binds; line 132 leaves one bracket
  open; line 133 calls \<open>day\<close>, which nothing binds. The module, which must compile
  before any of it runs, is rejected for line 132.
\<close>

theorem log_pipeline_never_writes:
  "(process_log_data cal spark inp outp = (Inl (NameError ''user_cols''), spark)
      \<or> process_log_data cal spark inp outp = (Inl (AnalysisException ''page''), spark))
   \<and> storage (snd (process_log_data cal spark inp outp)) = storage spark
   \<and> users_table df = Inl (NameError ''user_cols'')
   \<and> \<not> bound_name ''user_cols'' \<and> bound_name ''users_cols''
   \<and> get_datetime cal x = Inl (NameError ''to_date'') \<and> \<not> bound_name ''to_date''
   \<and> open_brackets False 0 line_132 = Some 1
   \<and> parse_statement 132 line_132 = Inl (SyntaxError 132)
   \<and> load_name (sql_functions cal) ''day'' = Inl (NameError ''day'') \<and> \<not> bound_name ''day''
   \<and> etl cal inp outp spark = (Inl (SyntaxError 132), spark)"
proof -
  have "storage (snd (process_log_data cal spark inp outp)) = storage spark"
    using process_log_data_raises [of cal spark inp outp] by auto
  then show ?thesis
    using process_log_data_raises [of cal spark inp outp] unbound_names
    by (simp add: users_table_raises users_cols_bound get_datetime_raises line_132_open
        line_132_rejected day_unbound etl_rejected)
qed

theorem log_pipeline_never_writes_witness:
  "process_log_data utc_january_1970 scenario ''in/'' ''out/''
     = (Inl (NameError ''user_cols''), scenario)
   \<and> storage (snd (process_log_data utc_january_1970 scenario ''in/'' ''out/'')) = []
   \<and> users_table (log_frame [log_row ''Test Song'' ''Test Artist'' ''free'' Null])
       = Inl (NameError ''user_cols'')
   \<and> get_datetime utc_january_1970 (IntV 1000) = Inl (NameError ''to_date'')
   \<and> etl utc_january_1970 ''in/'' ''out/'' scenario = (Inl (SyntaxError 132), scenario)"
proof -
  have "columns (read_json scenario (''in/'' @ ''log_data/*/*/*.json'') log_schema)
          = field_names log_schema"
    by (simp add: scenario_def session_of_def log_frame_def)
  from process_log_data_name_error [OF this, of utc_january_1970 "''out/''"]
  show ?thesis
    using log_pipeline_never_writes [of utc_january_1970 scenario "''in/''" "''out/''"
        "log_frame [log_row ''Test Song'' ''Test Artist'' ''free'' Null]" "IntV 1000"]
    by (simp add: scenario_def session_of_def)
qed

text \<open>
  C4. The log schema declares \<open>ts\<close> as IntegerType, whose cells are 32-bit signed
  integers. So no count of milliseconds of \<open>2^31\<close> or more is the value of any cell
  of that type, and the lenient reader does not load such a count as it stands: in the
  permissive mode the cell is Null, in the drop-malformed mode the record is dropped.
\<close>

theorem log_ts_not_representable:
  assumes "2 ^ 31 \<le> n"
  shows "field_type log_schema ''ts'' = Some IntegerType
         \<and> int_cell IntegerType n = None
         \<and> (\<forall>w :: 32 word. sint w \<noteq> n)
         \<and> load_int PERMISSIVE log_schema ''ts'' n = Some (Loaded Null)
         \<and> load_int DROPMALFORMED log_schema ''ts'' n = Some Dropped"
proof -
  have declared: "field_type log_schema ''ts'' = Some IntegerType"
    by (simp add: log_schema_def)
  have "sint w < 2 ^ 31" for w :: "32 word"
    using sint_lt [of w] by simp
  with assms have "\<forall>w :: 32 word. sint w \<noteq> n"
    by (metis not_less)
  with assms declared show ?thesis
    by (simp add: load_int_def int_cell_def load_cell_def)
qed

theorem log_ts_not_representable_witness:
  "(2 :: int) ^ 31 \<le> 1000000000000
   \<and> field_type log_schema ''ts'' = Some IntegerType
   \<and> int_cell IntegerType 1000000000000 = None
   \<and> load_int PERMISSIVE log_schema ''ts'' 1000000000000 = Some (Loaded Null)
   \<and> load_int DROPMALFORMED log_schema ''ts'' 1000000000000 = Some Dropped"
proof -
  have big: "(2 :: int) ^ 31 \<le> 1000000000000" by simp
  from log_ts_not_representable [OF big] big show ?thesis by simp
qed

text \<open>
  C1. One NextSong play of the one song on record survives the filter of line 113, so it
  should appear exactly once in the songplays output. Run through \<open>main\<close>, the log
  pipeline raises NameError at line 118, before the join of line 154: the session's
  outputs are the songs and the artists table alone, and the play appears in no songplays
  output at all.
\<close>

theorem matched_play_not_emitted:
  "fst (main utc_january_1970 ''in/'' ''out/'' matched_play) = Inl (NameError ''user_cols'')
   \<and> map fst (storage (snd (main utc_january_1970 ''in/'' ''out/'' matched_play)))
       = [''out/songs/songs.parquet'', ''out/artists/artists.parquet'']"
proof -
  have "columns (log_frame [log_row ''Test Song'' ''Test Artist'' ''free'' (IntV 1000)])
          = field_names log_schema"
    by (simp add: log_frame_def)
  from main_raises [OF this, of utc_january_1970] show ?thesis
    by (simp add: matched_play_def)
qed

text \<open>
  C2. The scenario of the specification, run through \<open>main\<close>: the song pipeline writes
  its two tables, then the log pipeline raises NameError at line 118, so no songplays
  table exists, and the session's outputs are the songs and the artists table alone. Run
  as a script, the module is rejected for line 132 before either pipeline starts.
\<close>

theorem scenario_has_no_songplays:
  "fst (main utc_january_1970 ''in/'' ''out/'' scenario) = Inl (NameError ''user_cols'')
   \<and> map fst (storage (snd (main utc_january_1970 ''in/'' ''out/'' scenario)))
       = [''out/songs/songs.parquet'', ''out/artists/artists.parquet'']
   \<and> etl utc_january_1970 ''in/'' ''out/'' scenario = (Inl (SyntaxError 132), scenario)"
proof -
  have "columns (log_frame [log_row ''Test Song'' ''Test Artist'' ''free'' Null])
          = field_names log_schema"
    by (simp add: log_frame_def)
  from main_raises [OF this, of utc_january_1970] show ?thesis
    by (simp add: scenario_def etl_rejected)
qed

text \<open>
  C5. A user with one play at level free and one at level paid: the log pipeline raises
  NameError at line 118, where the users table would be projected, and writes no users
  table.
\<close>

theorem users_table_not_written:
  "process_log_data utc_january_1970 two_levels ''in/'' ''out/''
     = (Inl (NameError ''user_cols''), two_levels)
   \<and> storage two_levels = []"
proof -
  have "columns (read_json two_levels (''in/'' @ ''log_data/*/*/*.json'') log_schema)
          = field_names log_schema"
    by (simp add: two_levels_def session_of_def log_frame_def)
  from process_log_data_name_error [OF this, of utc_january_1970 "''out/''"]
  show ?thesis
    by (simp add: two_levels_def session_of_def)
qed

text \<open>
  C6. A play whose song no song record names: after the song pipeline, the log pipeline
  raises NameError at line 118, and no songplays table, hence no row for the play, is
  written.
\<close>

theorem unmatched_play_not_emitted:
  "fst (main utc_january_1970 ''in/'' ''out/'' unmatched_play) = Inl (NameError ''user_cols'')
   \<and> map fst (storage (snd (main utc_january_1970 ''in/'' ''out/'' unmatched_play)))
       = [''out/songs/songs.parquet'', ''out/artists/artists.parquet'']"
proof -
  have "columns (log_frame [log_row ''Other Song'' ''Test Artist'' ''free'' (IntV 1000)])
          = field_names log_schema"
    by (simp add: log_frame_def)
  from main_raises [OF this, of utc_january_1970] show ?thesis
    by (simp add: unmatched_play_def)
qed

section \<open>The time table\<close>

lemma col_index_Inr: "col_index cs c = Inr i \<Longrightarrow> index_of c cs = Some i"
  by (auto simp add: col_index_def split: option.splits if_splits)

lemma collect_Cons_Inr:
  "collect (m # ms) = Inr xs \<Longrightarrow> \<exists>y ys. xs = y # ys \<and> m = Inr y \<and> collect ms = Inr ys"
  by (auto split: sum.splits)

lemma distinct_singletons: "distinct (map (\<lambda>r. [f r]) rs) = distinct (map f rs)"
  by (simp add: distinct_map inj_on_def)

lemma set_singletons: "set (map (\<lambda>r. [f r]) rs) = (\<lambda>x. [x]) ` set (map f rs)"
  by auto

lemma time_table_rows:
  assumes "time_table df = Inr t"
  shows "\<exists>i js. index_of ''start_time'' (columns df) = Some i
           \<and> columns t = time_cols
           \<and> rows t = first_by (\<lambda>r. [cell r 0]) [] (map (\<lambda>r. map (cell r) (i # js)) (rows df))"
proof -
  from assms obtain t0 where sel: "select time_cols df = Inr t0"
    and dd: "dropDuplicates_on [''start_time''] t0 = Inr t"
    by (auto simp add: time_table_def bind_err_def split: sum.splits)
  from sel obtain "is" where coll: "collect (map (col_index (columns df)) time_cols) = Inr is"
    and t0: "t0 = \<lparr>columns = time_cols, rows = map (\<lambda>r. map (cell r) is) (rows df)\<rparr>"
    by (auto simp add: select_def project_def bind_err_def comp_def time_cols_def
        split: sum.splits)
  from coll obtain i js where "is": "is = i # js"
    and ci: "col_index (columns df) ''start_time'' = Inr i"
    using collect_Cons_Inr by (fastforce simp add: time_cols_def)
  have c0: "col_index time_cols ''start_time'' = Inr 0"
    by (simp add: col_index_def time_cols_def)
  from dd t0 c0 have "rows t = first_by (\<lambda>r. [cell r 0]) []
                        (map (\<lambda>r. map (cell r) (i # js)) (rows df))"
    and "columns t = time_cols"
    by (auto simp add: dropDuplicates_on_def bind_err_def "is")
  with col_index_Inr [OF ci] show ?thesis by blast
qed


text \<open>
  C7. The time table built at line 141 has at most one row per \<open>start_time\<close>: its
  \<open>start_time\<close> cells are pairwise distinct, and they are the \<open>start_time\<close>
  values of the frame it is built from. The statement is about line 141 on any frame that
  reaches it with the seven time columns.
\<close>

theorem time_table_one_row_per_start_time:
  assumes "time_table df = Inr t"
  shows "distinct (column ''start_time'' t)
         \<and> set (column ''start_time'' t) = set (column ''start_time'' df)"
proof -
  from time_table_rows [OF assms] obtain i js where
    i: "index_of ''start_time'' (columns df) = Some i" and ct: "columns t = time_cols"
    and rt: "rows t = first_by (\<lambda>r. [cell r 0]) []
                        (map (\<lambda>r. map (cell r) (i # js)) (rows df))"
    by blast
  define g where "g = (\<lambda>r. map (cell r) (i # js))"
  have g: "\<forall>r. cell (g r) 0 = cell r i"
    by (simp add: g_def cell_def)
  note rt = rt [folded g_def]
  have col_t: "column ''start_time'' t = map (\<lambda>r. cell r 0) (rows t)"
    by (simp add: column_def ct time_cols_def)
  have col_df: "column ''start_time'' df = map (\<lambda>r. cell r i) (rows df)"
    by (simp add: column_def i)
  have "distinct (map (\<lambda>r. [cell r 0]) (rows t))"
    unfolding rt by (rule first_by_distinct)
  then have d: "distinct (map (\<lambda>r. cell r 0) (rows t))"
    by (simp only: distinct_singletons)
  have "set (map (\<lambda>r. [cell r 0]) (rows t)) = set (map (\<lambda>r. [cell r 0]) (map g (rows df)))"
    unfolding rt using first_by_keys [of "\<lambda>r. [cell r 0]" "[]" "map g (rows df)"] by simp
  then have "(\<lambda>x. [x]) ` set (map (\<lambda>r. cell r 0) (rows t))
               = (\<lambda>x. [x]) ` set (map (\<lambda>r. cell r 0) (map g (rows df)))"
    by (simp only: set_singletons)
  then have "set (map (\<lambda>r. cell r 0) (rows t)) = set (map (\<lambda>r. cell r 0) (map g (rows df)))"
    by (rule inj_image_eq_iff [THEN iffD1, rotated]) (simp add: inj_on_def)
  also have "\<dots> = set (map (\<lambda>r. cell r i) (rows df))"
    using g by (simp add: comp_def)
  finally show ?thesis using d by (simp add: col_t col_df)
qed

theorem time_table_one_row_per_start_time_witness:
  "time_table
     (timed_frame [timed_row ''Test Song'' ''Test Artist'' 1000,
                   timed_row ''Other Song'' ''Test Artist'' 1000,
                   timed_row ''Test Song'' ''Test Artist'' 5000])
     = Inr \<lparr>columns = time_cols,
            rows = [[TsV 1000000, IntV 0, IntV 1, IntV 1, IntV 1, IntV 1970, IntV 5],
                    [TsV 5000000, IntV 0, IntV 1, IntV 1, IntV 1, IntV 1970, IntV 5]]\<rparr>
   \<and> distinct (column ''start_time''
        \<lparr>columns = time_cols,
         rows = [[TsV 1000000, IntV 0, IntV 1, IntV 1, IntV 1, IntV 1970, IntV 5],
                 [TsV 5000000, IntV 0, IntV 1, IntV 1, IntV 1, IntV 1970, IntV 5]]\<rparr>)"
proof -
  have built: "time_table
     (timed_frame [timed_row ''Test Song'' ''Test Artist'' 1000,
                   timed_row ''Other Song'' ''Test Artist'' 1000,
                   timed_row ''Test Song'' ''Test Artist'' 5000])
     = Inr \<lparr>columns = time_cols,
            rows = [[TsV 1000000, IntV 0, IntV 1, IntV 1, IntV 1, IntV 1970, IntV 5],
                    [TsV 5000000, IntV 0, IntV 1, IntV 1, IntV 1, IntV 1970, IntV 5]]\<rparr>"
    by (simp add: time_table_def select_def project_def dropDuplicates_on_def bind_err_def
        time_cols_def col_index_def timed_frame_def timed_columns_def log_columns
        timed_row_def log_row_def utc_january_1970_def cell_def)
  from time_table_one_row_per_start_time [OF built] built show ?thesis by simp
qed

section \<open>The join of the songplays table\<close>

lemma timed_columns_list:
  "timed_columns =
     [''artist'', ''auth'', ''firstName'', ''gender'', ''itemInSession'', ''lastName'',
      ''length'', ''level'', ''location'', ''method'', ''page'', ''registration'',
      ''sessionId'', ''song'', ''status'', ''ts'', ''userAgent'', ''userId'',
      ''timestamp'', ''start_time'', ''hour'', ''day'', ''week'', ''month'', ''year'',
      ''weekday'']"
  by (simp add: timed_columns_def field_names_def log_schema_def)

lemma log_side:
  "col_index (timed_columns @ song_view_columns) ''start_time'' = Inr 19"
  "col_index (timed_columns @ song_view_columns) ''userId'' = Inr 17"
  "col_index (timed_columns @ song_view_columns) ''level'' = Inr 7"
  "col_index (timed_columns @ song_view_columns) ''sessionId'' = Inr 12"
  "col_index (timed_columns @ song_view_columns) ''location'' = Inr 8"
  "col_index (timed_columns @ song_view_columns) ''userAgent'' = Inr 16"
  "col_index (timed_columns @ song_view_columns) ''year'' = Inr 24"
  "col_index (timed_columns @ song_view_columns) ''month'' = Inr 23"
  by code_simp+

lemma song_side:
  "col_index (timed_columns @ song_view_columns) ''song_id'' = Inr 26"
  "col_index (timed_columns @ song_view_columns) ''artist_id'' = Inr 28"
  by code_simp+

lemma join_keys:
  "col_index timed_columns ''song'' = Inr 13"
  "col_index timed_columns ''artist'' = Inr 0"
  "col_index song_view_columns ''title'' = Inr 1"
  "col_index song_view_columns ''artist_name'' = Inr 3"
  by code_simp+

lemma field_indices:
  "index_of ''song'' timed_columns = Some 13"
  "index_of ''artist'' timed_columns = Some 0"
  "index_of ''start_time'' timed_columns = Some 19"
  "index_of ''userId'' timed_columns = Some 17"
  "index_of ''level'' timed_columns = Some 7"
  "index_of ''sessionId'' timed_columns = Some 12"
  "index_of ''location'' timed_columns = Some 8"
  "index_of ''userAgent'' timed_columns = Some 16"
  "index_of ''year'' timed_columns = Some 24"
  "index_of ''month'' timed_columns = Some 23"
  "index_of ''song_id'' song_view_columns = Some 0"
  "index_of ''title'' song_view_columns = Some 1"
  "index_of ''artist_id'' song_view_columns = Some 2"
  "index_of ''artist_name'' song_view_columns = Some 3"
  by code_simp+

lemma parsed_songplays_cols:
  "collect (map parse_expr songplays_cols) =
     Inr [(''start_time'', ''start_time''), (''userId'', ''user_id''), (''level'', ''level''),
          (''song_id'', ''song_id''), (''artist_id'', ''artist_id''),
          (''sessionId'', ''session_id''), (''location'', ''location''),
          (''userAgent'', ''user_agent''), (''year'', ''year''), (''month'', ''month'')]"
  by (simp add: songplays_cols_def parse_expr_def)

lemma song_view_width: "length song_view_columns = 4"
  by (simp add: song_view_columns_def)

lemma join_154:
  assumes "columns df = timed_columns" "columns song_df = song_view_columns"
  shows "join_left conditions df song_df =
           Inr \<lparr>columns = timed_columns @ song_view_columns,
                rows = concat (map (join_row [(13, 1), (0, 3)] 4 (rows song_df)) (rows df))\<rparr>"
  using assms
  by (simp add: join_left_def conditions_def bind_err_def join_keys song_view_width)

lemma select_154:
  assumes "columns j = timed_columns @ song_view_columns"
  shows "selectExpr songplays_cols j =
           Inr \<lparr>columns = songplays_columns,
                rows = map (\<lambda>r. map (cell r) [19, 17, 7, 26, 28, 12, 8, 16, 24, 23]) (rows j)\<rparr>"
  using assms
  by (simp add: selectExpr_def parsed_songplays_cols project_def bind_err_def
      log_side song_side songplays_columns_def)

lemma matches_154:
  assumes "columns df = timed_columns" "columns song_df = song_view_columns"
  shows "filter (matches [(13, 1), (0, 3)] l) (rows song_df) = song_matches df song_df l"
  using assms
  by (auto simp add: matches_def song_matches_def field_def field_indices intro!: filter_cong)


lemma cell_append_left: "i < length l \<Longrightarrow> cell (l @ r) i = cell l i"
  by (simp add: cell_def nth_append)

lemma cell_append_right: "cell (l @ r) (length l + k) = cell r k"
  by (simp add: cell_def nth_append)

lemma songplay_cells:
  assumes "columns df = timed_columns" "columns song_df = song_view_columns"
    and "length l = 26"
  shows "map (cell (l @ r)) [19, 17, 7, 26, 28, 12, 8, 16, 24, 23]
           = songplay df l (cell r 0) (cell r 2)"
proof -
  have right: "cell (l @ r) 26 = cell r 0" "cell (l @ r) 28 = cell r 2"
    using cell_append_right [of l r 0] cell_append_right [of l r 2] assms(3) by simp_all
  show ?thesis
    using assms
    by (simp add: songplay_def field_def field_indices cell_append_left right)
qed

lemma picked_join_row:
  assumes "columns df = timed_columns" "columns song_df = song_view_columns"
    and "length l = 26"
  shows "map (\<lambda>r. map (cell r) [19, 17, 7, 26, 28, 12, 8, 16, 24, 23])
           (join_row [(13, 1), (0, 3)] 4 (rows song_df) l) = plays_of df song_df l"
proof -
  note found = matches_154 [OF assms(1,2), of l]
  show ?thesis
  proof (cases "song_matches df song_df l")
    case Nil
    have "cell (replicate 4 Null) 0 = Null" "cell (replicate 4 Null) 2 = Null"
      by (simp_all add: cell_def)
    with songplay_cells [OF assms, of "replicate 4 Null"]
    have "map (cell (l @ replicate 4 Null)) [19, 17, 7, 26, 28, 12, 8, 16, 24, 23]
            = songplay df l Null Null"
      by simp
    with Nil show ?thesis
      unfolding join_row_def plays_of_def found by simp
  next
    case (Cons m ms)
    have "map (cell (l @ r)) [19, 17, 7, 26, 28, 12, 8, 16, 24, 23]
            = songplay df l (field song_df ''song_id'' r) (field song_df ''artist_id'' r)" for r
      using songplay_cells [OF assms, of r] assms(2) by (simp add: field_def field_indices)
    with Cons show ?thesis
      unfolding join_row_def plays_of_def found by simp
  qed
qed

lemma timed_width: "length timed_columns = 26"
  by (simp add: timed_columns_list)

lemma songplays_table_explicit:
  assumes "columns df = timed_columns" "columns song_df = song_view_columns"
    and "well_formed df"
  shows "songplays_table part df song_df =
           Inr (with_ids ''songplay_id'' part
                  \<lparr>columns = songplays_columns,
                   rows = concat (map (plays_of df song_df) (rows df))\<rparr>)"
proof -
  have width: "length l = 26" if "l \<in> set (rows df)" for l
    using assms(1,3) that by (simp add: well_formed_def list_all_iff timed_width)
  have "map (\<lambda>r. map (cell r) [19, 17, 7, 26, 28, 12, 8, 16, 24, 23])
          (concat (map (join_row [(13, 1), (0, 3)] 4 (rows song_df)) (rows df)))
        = concat (map (plays_of df song_df) (rows df))"
    using picked_join_row [OF assms(1,2) width]
    by (simp add: map_concat comp_def cong: map_cong)
  then show ?thesis
    by (simp add: songplays_table_def join_154 [OF assms(1,2)] select_154 bind_err_def)
qed

lemma length_plays_of:
  "length (plays_of df song_df l) = max 1 (length (song_matches df song_df l))"
  by (cases "song_matches df song_df l") (simp_all add: plays_of_def)

lemma plays_of_width: "p \<in> set (plays_of df song_df l) \<Longrightarrow> length p = 10"
  by (cases "song_matches df song_df l") (auto simp add: plays_of_def songplay_def)

lemma with_ids_rows:
  assumes "index_of c (columns t) = None"
  shows "rows (with_ids c part t) =
           map (\<lambda>p. fst p @ [snd p])
             (zip (rows t) (map (monotonically_increasing_id part) [0..<length (rows t)]))"
    and "columns (with_ids c part t) = columns t @ [c]"
  using assms by (simp_all add: with_ids_def add_column_def)

lemma take_numbered:
  assumes "\<forall>r \<in> set rs. length r = n" "length ids = length rs"
  shows "map (take n) (map (\<lambda>p. fst p @ [snd p]) (zip rs ids)) = rs"
  using assms
proof (induction rs arbitrary: ids)
  case Nil
  show ?case by simp
next
  case (Cons r rs)
  then obtain i ids' where "ids = i # ids'" by (cases ids) auto
  with Cons show ?case by simp
qed


lemma songplays_table_plays:
  assumes "columns df = timed_columns" "columns song_df = song_view_columns"
    and "well_formed df"
  shows "\<exists>out. songplays_table part df song_df = Inr out
           \<and> columns out = songplays_columns @ [''songplay_id'']
           \<and> map (take 10) (rows out) = concat (map (plays_of df song_df) (rows df))
           \<and> length (rows out)
               = sum_list (map (\<lambda>l. max 1 (length (song_matches df song_df l))) (rows df))"
proof -
  let ?t = "\<lparr>columns = songplays_columns,
             rows = concat (map (plays_of df song_df) (rows df))\<rparr>"
  let ?out = "with_ids ''songplay_id'' part ?t"
  have fresh: "index_of ''songplay_id'' (columns ?t) = None"
    by (simp add: songplays_columns_def)
  have wide: "\<forall>r \<in> set (rows ?t). length r = 10"
    using plays_of_width by auto
  have kept: "map (take 10) (rows ?out) = rows ?t"
    unfolding with_ids_rows(1) [OF fresh] by (rule take_numbered [OF wide]) simp
  have "length (rows ?out) = length (rows ?t)"
    by (simp add: with_ids_rows(1) [OF fresh])
  also have "\<dots> = sum_list (map (\<lambda>l. max 1 (length (song_matches df song_df l))) (rows df))"
    by (simp add: length_concat comp_def length_plays_of)
  finally have count: "length (rows ?out)
      = sum_list (map (\<lambda>l. max 1 (length (song_matches df song_df l))) (rows df))" .
  from songplays_table_explicit [OF assms] kept count with_ids_rows(2) [OF fresh]
  show ?thesis by simp
qed

text \<open>
  The part of C6 that the join itself decides: a log row that matches no song record
  leaves lines 150 to 154 as a songplays row with Null \<open>song_id\<close> and
  \<open>artist_id\<close>.
\<close>

lemma unmatched_row_kept:
  assumes "columns df = timed_columns" "columns song_df = song_view_columns"
    and "well_formed df" and "l \<in> set (rows df)"
    and "song_matches df song_df l = []"
  shows "\<exists>out. songplays_table part df song_df = Inr out
           \<and> songplay df l Null Null \<in> set (map (take 10) (rows out))"
proof -
  from songplays_table_plays [OF assms(1-3), of part] obtain out where
    out: "songplays_table part df song_df = Inr out"
    and kept: "map (take 10) (rows out) = concat (map (plays_of df song_df) (rows df))"
    by blast
  from assms(5) have "songplay df l Null Null \<in> set (plays_of df song_df l)"
    by (simp add: plays_of_def)
  with assms(4)
  have "songplay df l Null Null \<in> set (concat (map (plays_of df song_df) (rows df)))"
    by auto
  then have "songplay df l Null Null \<in> set (map (take 10) (rows out))"
    unfolding kept .
  with out show ?thesis by blast
qed

end
